theory Spec2Isabelle
  imports Complex_Main "HOL-Library.Word"
begin

section \<open>Math types of the scene graph\<close>

text \<open>
  A \<open>float\<close> of the source is modelled by the real number it denotes (finite values
  only). Comparison, \<open>min\<close> and \<open>max\<close> are exact on floats. An arithmetic operation of
  the source is the exact operation followed by a rounding \<open>rnd\<close>, which the functions
  below take as a parameter: nothing is assumed about it except where a theorem says so.
\<close>

definition fadd :: "(real \<Rightarrow> real) \<Rightarrow> real \<Rightarrow> real \<Rightarrow> real" where
  "fadd rnd a b = rnd (a + b)"

definition fmul :: "(real \<Rightarrow> real) \<Rightarrow> real \<Rightarrow> real \<Rightarrow> real" where
  "fmul rnd a b = rnd (a * b)"

definition fdiv :: "(real \<Rightarrow> real) \<Rightarrow> real \<Rightarrow> real \<Rightarrow> real" where
  "fdiv rnd a b = rnd (a / b)"

text \<open>The largest finite binary32 value, \<open>std::numeric_limits<float>::max()\<close>.\<close>

definition FLT_MAX :: real where
  "FLT_MAX = (2 ^ 24 - 1) * 2 ^ 104"

text \<open>\<open>RadeonRays::float3\<close> and \<open>float2\<close> (math/float3.h, math/float2.h): the
  coordinates; the padding component \<open>w\<close> of \<open>float3\<close> takes no part in any operation
  used here and is left out.\<close>

record float3 =
  f3x :: real
  f3y :: real
  f3z :: real

record float2 =
  f2x :: real
  f2y :: real

definition mk_float3 :: "real \<Rightarrow> real \<Rightarrow> real \<Rightarrow> float3" where
  "mk_float3 a b c = \<lparr>f3x = a, f3y = b, f3z = c\<rparr>"

text \<open>The component-wise minimum and maximum of two points.\<close>

definition vmin :: "float3 \<Rightarrow> float3 \<Rightarrow> float3" where
  "vmin a b = \<lparr>f3x = min (f3x a) (f3x b), f3y = min (f3y a) (f3y b), f3z = min (f3z a) (f3z b)\<rparr>"

definition vmax :: "float3 \<Rightarrow> float3 \<Rightarrow> float3" where
  "vmax a b = \<lparr>f3x = max (f3x a) (f3x b), f3y = max (f3y a) (f3y b), f3z = max (f3z a) (f3z b)\<rparr>"

text \<open>\<open>RadeonRays::bbox\<close> (math/bbox.h): the two corners.\<close>

record bbox =
  pmin :: float3
  pmax :: float3

text \<open>Modelled from the spec: math/bbox.h is not among the sources. The box of zero
  vertices is "an inverted box where min > max": every coordinate of \<open>pmin\<close> is the
  largest float, every coordinate of \<open>pmax\<close> the smallest, so that growing it by a
  point gives the box of that point.\<close>

definition bbox_empty :: bbox where
  "bbox_empty = \<lparr>pmin = mk_float3 FLT_MAX FLT_MAX FLT_MAX,
                  pmax = mk_float3 (- FLT_MAX) (- FLT_MAX) (- FLT_MAX)\<rparr>"

text \<open>Modelled from the spec: \<open>bbox::grow\<close>, "accumulate the component-wise minimum and
  maximum".\<close>

definition grow :: "bbox \<Rightarrow> float3 \<Rightarrow> bbox" where
  "grow b p = \<lparr>pmin = vmin (pmin b) p, pmax = vmax (pmax b) p\<rparr>"

text \<open>A point lies in a box: between the two corners in every coordinate.\<close>

definition contains :: "bbox \<Rightarrow> float3 \<Rightarrow> bool" where
  "contains b p \<longleftrightarrow>
     f3x (pmin b) \<le> f3x p \<and> f3x p \<le> f3x (pmax b) \<and>
     f3y (pmin b) \<le> f3y p \<and> f3y p \<le> f3y (pmax b) \<and>
     f3z (pmin b) \<le> f3z p \<and> f3z p \<le> f3z (pmax b)"

text \<open>\<open>RadeonRays::matrix\<close> (math/matrix.h): a 4x4 matrix, row by row.\<close>

record matrix =
  m00 :: real  m01 :: real  m02 :: real  m03 :: real
  m10 :: real  m11 :: real  m12 :: real  m13 :: real
  m20 :: real  m21 :: real  m22 :: real  m23 :: real
  m30 :: real  m31 :: real  m32 :: real  m33 :: real

definition matrix_identity :: matrix where
  "matrix_identity =
     \<lparr>m00 = 1, m01 = 0, m02 = 0, m03 = 0,
      m10 = 0, m11 = 1, m12 = 0, m13 = 0,
      m20 = 0, m21 = 0, m22 = 1, m23 = 0,
      m30 = 0, m31 = 0, m32 = 0, m33 = 1\<rparr>"

section \<open>SceneObject, Shape, Mesh, Instance (shape.h)\<close>

text \<open>A pointer is an address or null.\<close>

type_synonym addr = nat
type_synonym Material_ptr = "addr option"
type_synonym Shape_ptr = "addr option"

text \<open>Modelled from the spec: scene_object.h is not among the sources; a SceneObject holds
  the dirty flag.\<close>

record SceneObject =
  m_dirty :: bool

record Shape = SceneObject +
  m_material :: Material_ptr
  m_transform :: matrix
  m_shadow :: bool

record Mesh = Shape +
  m_vertices :: "float3 list"
  m_normals :: "float3 list"
  m_uvs :: "float2 list"
  m_indices :: "32 word list"
  m_aabb :: bbox
  m_aabb_cached :: bool

record Instance = Shape +
  m_base_shape :: Shape_ptr

text \<open>The dynamic type of a shape object: \<open>Shape\<close> is abstract, its subclasses are
  \<open>Mesh\<close> and \<open>Instance\<close>. The store maps the addresses of live shapes to them.\<close>

datatype shape_obj = MeshObj Mesh | InstanceObj Instance

type_synonym heap = "addr \<rightharpoonup> shape_obj"

datatype shape_error = InvalidPointer | NullBaseShape

subsection \<open>The dirty flag\<close>

text \<open>Modelled from the spec: \<open>SceneObject::SetDirty\<close> "simply stores the flag", and
  \<open>Mesh::SetDirty\<close> "additionally clears aabb_valid" (shape.h, line 127: "mesh changes
  trigger m_aabb_cached flag reset"); their bodies are not among the sources.\<close>

definition SceneObject_SetDirty :: "bool \<Rightarrow> 'a SceneObject_scheme \<Rightarrow> 'a SceneObject_scheme" where
  "SceneObject_SetDirty dirty s = s\<lparr>m_dirty := dirty\<rparr>"

definition Mesh_SetDirty :: "bool \<Rightarrow> Mesh \<Rightarrow> Mesh" where
  "Mesh_SetDirty dirty m = (SceneObject_SetDirty dirty m)\<lparr>m_aabb_cached := False\<rparr>"

text \<open>The virtual call \<open>SetDirty(dirty)\<close> on a shape: the override of the dynamic type.\<close>

fun SetDirty :: "bool \<Rightarrow> shape_obj \<Rightarrow> shape_obj" where
  "SetDirty dirty (MeshObj m) = MeshObj (Mesh_SetDirty dirty m)"
| "SetDirty dirty (InstanceObj i) = InstanceObj (SceneObject_SetDirty dirty i)"

fun IsDirty :: "shape_obj \<Rightarrow> bool" where
  "IsDirty (MeshObj m) = m_dirty m"
| "IsDirty (InstanceObj i) = m_dirty i"

subsection \<open>Shape\<close>

text \<open>The setters and getters of \<open>Shape\<close>, as shape.h defines them, on an object of
  either dynamic type. Each setter stores its argument and calls the virtual
  \<open>SetDirty(true)\<close>.\<close>

fun Shape_SetMaterial :: "Material_ptr \<Rightarrow> shape_obj \<Rightarrow> shape_obj" where
  "Shape_SetMaterial material (MeshObj m) = SetDirty True (MeshObj (m\<lparr>m_material := material\<rparr>))"
| "Shape_SetMaterial material (InstanceObj i) =
     SetDirty True (InstanceObj (i\<lparr>m_material := material\<rparr>))"

fun Shape_GetMaterial :: "shape_obj \<Rightarrow> Material_ptr" where
  "Shape_GetMaterial (MeshObj m) = m_material m"
| "Shape_GetMaterial (InstanceObj i) = m_material i"

fun Shape_SetTransform :: "matrix \<Rightarrow> shape_obj \<Rightarrow> shape_obj" where
  "Shape_SetTransform t (MeshObj m) = SetDirty True (MeshObj (m\<lparr>m_transform := t\<rparr>))"
| "Shape_SetTransform t (InstanceObj i) = SetDirty True (InstanceObj (i\<lparr>m_transform := t\<rparr>))"

fun Shape_GetTransform :: "shape_obj \<Rightarrow> matrix" where
  "Shape_GetTransform (MeshObj m) = m_transform m"
| "Shape_GetTransform (InstanceObj i) = m_transform i"

fun Shape_SetShadow :: "bool \<Rightarrow> shape_obj \<Rightarrow> shape_obj" where
  "Shape_SetShadow shadow (MeshObj m) = SetDirty True (MeshObj (m\<lparr>m_shadow := shadow\<rparr>))"
| "Shape_SetShadow shadow (InstanceObj i) = SetDirty True (InstanceObj (i\<lparr>m_shadow := shadow\<rparr>))"

fun Shape_GetShadow :: "shape_obj \<Rightarrow> bool" where
  "Shape_GetShadow (MeshObj m) = m_shadow m"
| "Shape_GetShadow (InstanceObj i) = m_shadow i"

subsection \<open>Instance\<close>

text \<open>\<open>Shape::Shape()\<close> sets no material and lets the shape cast shadows; the transform
  is the default matrix, the identity. The constructor of SceneObject sets the dirty flag
  and is not among the sources: the initial flag is the parameter \<open>dirty0\<close>.
  \<open>Instance::Instance(base_shape)\<close> stores the base shape.\<close>

definition Instance_new :: "bool \<Rightarrow> Shape_ptr \<Rightarrow> Instance" where
  "Instance_new dirty0 base_shape =
     \<lparr>m_dirty = dirty0, m_material = None, m_transform = matrix_identity, m_shadow = True,
      m_base_shape = base_shape\<rparr>"

definition Instance_SetBaseShape :: "Shape_ptr \<Rightarrow> Instance \<Rightarrow> Instance" where
  "Instance_SetBaseShape base_shape i = SceneObject_SetDirty True (i\<lparr>m_base_shape := base_shape\<rparr>)"

definition Instance_GetBaseShape :: "Instance \<Rightarrow> Shape_ptr" where
  "Instance_GetBaseShape i = m_base_shape i"

subsection \<open>Mesh\<close>

text \<open>Modelled from the spec: the member functions of \<open>Mesh\<close> are declared in shape.h and
  defined in a file that is not among the sources. After construction the vertex arrays
  are empty and the cache is not valid.\<close>

definition Mesh_new :: "bool \<Rightarrow> Mesh" where
  "Mesh_new dirty0 =
     \<lparr>m_dirty = dirty0, m_material = None, m_transform = matrix_identity, m_shadow = True,
      m_vertices = [], m_normals = [], m_uvs = [], m_indices = [],
      m_aabb = bbox_empty, m_aabb_cached = False\<rparr>"

text \<open>A pointer with a count is the array behind the pointer and the number of elements
  copied from it. The arrays of floats hold three floats for each vertex or normal and two
  for each UV. Where the array is shorter than the count the source reads out of bounds;
  the model copies what is there.\<close>

fun float3s_of :: "real list \<Rightarrow> float3 list" where
  "float3s_of (a # b # c # r) = mk_float3 a b c # float3s_of r"
| "float3s_of r = []"

fun float2s_of :: "real list \<Rightarrow> float2 list" where
  "float2s_of (a # b # r) = \<lparr>f2x = a, f2y = b\<rparr> # float2s_of r"
| "float2s_of r = []"

text \<open>Modelled from the spec: each setter replaces its array and "calls SetDirty(true)
  before returning" (4.1), which for a mesh is \<open>Mesh::SetDirty\<close>. For the setters of
  normals, UVs and indices the spec also says, in 4.3, that they do not invalidate the
  cached box; the two sentences do not agree and the bodies are not among the sources.
  No theorem below states what these three setters do to \<open>m_aabb_cached\<close>.\<close>

definition Mesh_SetIndices_ptr :: "32 word list \<Rightarrow> nat \<Rightarrow> Mesh \<Rightarrow> Mesh" where
  "Mesh_SetIndices_ptr indices num_indices m =
     Mesh_SetDirty True (m\<lparr>m_indices := take num_indices indices\<rparr>)"

definition Mesh_SetIndices_vec :: "32 word list \<Rightarrow> Mesh \<Rightarrow> Mesh" where
  "Mesh_SetIndices_vec indices m = Mesh_SetDirty True (m\<lparr>m_indices := indices\<rparr>)"

definition Mesh_SetVertices_ptr :: "float3 list \<Rightarrow> nat \<Rightarrow> Mesh \<Rightarrow> Mesh" where
  "Mesh_SetVertices_ptr vertices num_vertices m =
     Mesh_SetDirty True (m\<lparr>m_vertices := take num_vertices vertices\<rparr>)"

definition Mesh_SetVertices_floats :: "real list \<Rightarrow> nat \<Rightarrow> Mesh \<Rightarrow> Mesh" where
  "Mesh_SetVertices_floats vertices num_vertices m =
     Mesh_SetDirty True (m\<lparr>m_vertices := take num_vertices (float3s_of vertices)\<rparr>)"

definition Mesh_SetVertices_vec :: "float3 list \<Rightarrow> Mesh \<Rightarrow> Mesh" where
  "Mesh_SetVertices_vec vertices m = Mesh_SetDirty True (m\<lparr>m_vertices := vertices\<rparr>)"

definition Mesh_SetNormals_ptr :: "float3 list \<Rightarrow> nat \<Rightarrow> Mesh \<Rightarrow> Mesh" where
  "Mesh_SetNormals_ptr normals num_normals m =
     Mesh_SetDirty True (m\<lparr>m_normals := take num_normals normals\<rparr>)"

definition Mesh_SetNormals_floats :: "real list \<Rightarrow> nat \<Rightarrow> Mesh \<Rightarrow> Mesh" where
  "Mesh_SetNormals_floats normals num_normals m =
     Mesh_SetDirty True (m\<lparr>m_normals := take num_normals (float3s_of normals)\<rparr>)"

definition Mesh_SetNormals_vec :: "float3 list \<Rightarrow> Mesh \<Rightarrow> Mesh" where
  "Mesh_SetNormals_vec normals m = Mesh_SetDirty True (m\<lparr>m_normals := normals\<rparr>)"

definition Mesh_SetUVs_ptr :: "float2 list \<Rightarrow> nat \<Rightarrow> Mesh \<Rightarrow> Mesh" where
  "Mesh_SetUVs_ptr uvs num_uvs m = Mesh_SetDirty True (m\<lparr>m_uvs := take num_uvs uvs\<rparr>)"

definition Mesh_SetUVs_floats :: "real list \<Rightarrow> nat \<Rightarrow> Mesh \<Rightarrow> Mesh" where
  "Mesh_SetUVs_floats uvs num_uvs m =
     Mesh_SetDirty True (m\<lparr>m_uvs := take num_uvs (float2s_of uvs)\<rparr>)"

definition Mesh_SetUVs_vec :: "float2 list \<Rightarrow> Mesh \<Rightarrow> Mesh" where
  "Mesh_SetUVs_vec uvs m = Mesh_SetDirty True (m\<lparr>m_uvs := uvs\<rparr>)"

text \<open>Modelled from the spec: \<open>Mesh::GetLocalAABB\<close>. "If aabb_valid is true, return
  cached_aabb unchanged; otherwise iterate every vertex, accumulate the component-wise
  minimum and maximum into a new box, store it, set aabb_valid = true, and return it."
  The function is \<open>const\<close> and writes the two \<open>mutable\<close> members, so it returns the
  mesh with the box.\<close>

fun grow_vertices :: "float3 list \<Rightarrow> bbox \<Rightarrow> bbox" where
  "grow_vertices [] b = b"
| "grow_vertices (v # vs) b = grow_vertices vs (grow b v)"

definition Mesh_GetLocalAABB :: "Mesh \<Rightarrow> bbox \<times> Mesh" where
  "Mesh_GetLocalAABB m =
     (if m_aabb_cached m then (m_aabb m, m)
      else (grow_vertices (m_vertices m) bbox_empty,
            m\<lparr>m_aabb := grow_vertices (m_vertices m) bbox_empty, m_aabb_cached := True\<rparr>))"

text \<open>The invariant of the cache: a valid cache holds the box of the current vertices.\<close>

definition aabb_cache_ok :: "Mesh \<Rightarrow> bool" where
  "aabb_cache_ok m \<longleftrightarrow>
     (if m_aabb_cached m then m_aabb m = grow_vertices (m_vertices m) bbox_empty else True)"

text \<open>The meshes a program can build: a new mesh, changed by any sequence of member
  functions of \<open>Mesh\<close> and of its base classes.\<close>

inductive mesh_reachable :: "Mesh \<Rightarrow> bool" where
  r_new: "mesh_reachable (Mesh_new dirty0)"
| r_SetDirty: "mesh_reachable m \<Longrightarrow> mesh_reachable (Mesh_SetDirty dirty m)"
| r_SetMaterial:
    "mesh_reachable m \<Longrightarrow> Shape_SetMaterial material (MeshObj m) = MeshObj m' \<Longrightarrow> mesh_reachable m'"
| r_SetTransform:
    "mesh_reachable m \<Longrightarrow> Shape_SetTransform t (MeshObj m) = MeshObj m' \<Longrightarrow> mesh_reachable m'"
| r_SetShadow:
    "mesh_reachable m \<Longrightarrow> Shape_SetShadow shadow (MeshObj m) = MeshObj m' \<Longrightarrow> mesh_reachable m'"
| r_SetIndices_ptr: "mesh_reachable m \<Longrightarrow> mesh_reachable (Mesh_SetIndices_ptr is n m)"
| r_SetIndices_vec: "mesh_reachable m \<Longrightarrow> mesh_reachable (Mesh_SetIndices_vec is m)"
| r_SetVertices_ptr: "mesh_reachable m \<Longrightarrow> mesh_reachable (Mesh_SetVertices_ptr vs n m)"
| r_SetVertices_floats: "mesh_reachable m \<Longrightarrow> mesh_reachable (Mesh_SetVertices_floats fs n m)"
| r_SetVertices_vec: "mesh_reachable m \<Longrightarrow> mesh_reachable (Mesh_SetVertices_vec vs m)"
| r_SetNormals_ptr: "mesh_reachable m \<Longrightarrow> mesh_reachable (Mesh_SetNormals_ptr ns n m)"
| r_SetNormals_floats: "mesh_reachable m \<Longrightarrow> mesh_reachable (Mesh_SetNormals_floats fs n m)"
| r_SetNormals_vec: "mesh_reachable m \<Longrightarrow> mesh_reachable (Mesh_SetNormals_vec ns m)"
| r_SetUVs_ptr: "mesh_reachable m \<Longrightarrow> mesh_reachable (Mesh_SetUVs_ptr us n m)"
| r_SetUVs_floats: "mesh_reachable m \<Longrightarrow> mesh_reachable (Mesh_SetUVs_floats fs n m)"
| r_SetUVs_vec: "mesh_reachable m \<Longrightarrow> mesh_reachable (Mesh_SetUVs_vec us m)"
| r_GetLocalAABB: "mesh_reachable m \<Longrightarrow> mesh_reachable (snd (Mesh_GetLocalAABB m))"

text \<open>The spec's words for the result: "the component-wise minimum/maximum envelope" of
  the vertices.\<close>

definition envelope_spec :: "float3 list \<Rightarrow> bbox" where
  "envelope_spec vs =
     \<lparr>pmin = mk_float3 (Min (f3x ` set vs)) (Min (f3y ` set vs)) (Min (f3z ` set vs)),
      pmax = mk_float3 (Max (f3x ` set vs)) (Max (f3y ` set vs)) (Max (f3z ` set vs))\<rparr>"

text \<open>A vertex whose coordinates are finite floats.\<close>

definition finite_float3 :: "float3 \<Rightarrow> bool" where
  "finite_float3 v \<longleftrightarrow>
     \<bar>f3x v\<bar> \<le> FLT_MAX \<and> \<bar>f3y v\<bar> \<le> FLT_MAX \<and> \<bar>f3z v\<bar> \<le> FLT_MAX"

text \<open>The spec's words for what the setters with a pointer and a count store: the first
  \<open>n\<close> elements behind the pointer, and for an array of floats the \<open>n\<close> vertices
  whose coordinates are three consecutive floats each.\<close>

definition array_elements_spec :: "'a list \<Rightarrow> nat \<Rightarrow> 'a list" where
  "array_elements_spec xs n = map (\<lambda>i. xs ! i) [0..<n]"

definition float_vertices_spec :: "real list \<Rightarrow> nat \<Rightarrow> float3 list" where
  "float_vertices_spec fs n =
     map (\<lambda>i. mk_float3 (fs ! (3 * i)) (fs ! (3 * i + 1)) (fs ! (3 * i + 2))) [0..<n]"

text \<open>The mesh \<open>m'\<close> holds the vertices \<open>vs\<close> and \<open>GetLocalAABB\<close> on it returns the
  box computed from them: the box grown from the empty box and, when there is a vertex and
  the coordinates are finite floats, the minimum and maximum envelope.\<close>

definition aabb_reflects :: "Mesh \<Rightarrow> float3 list \<Rightarrow> bool" where
  "aabb_reflects m' vs \<longleftrightarrow>
     m_vertices m' = vs \<and>
     fst (Mesh_GetLocalAABB m') = grow_vertices vs bbox_empty \<and>
     (if vs \<noteq> [] \<and> list_all finite_float3 vs
      then fst (Mesh_GetLocalAABB m') = envelope_spec vs else True)"

subsection \<open>Boxes through a pointer to Shape\<close>

text \<open>Modelled from the spec: \<open>Instance::GetLocalAABB\<close> is declared in shape.h and
  defined elsewhere; it "returns base_shape->GetLocalAABB() verbatim". The function below
  is the virtual call \<open>GetLocalAABB()\<close> through a pointer to \<open>Shape\<close>: for a mesh
  it is \<open>Mesh::GetLocalAABB\<close>, which updates the cache of the mesh in the store; for
  an instance it is the call on the base shape. A null base shape and a pointer to no
  live shape are undefined behaviour in the source and errors here. A chain of instances
  that runs in a cycle never returns: the result is \<open>None\<close>.\<close>

partial_function (option) GetLocalAABB ::
    "heap \<Rightarrow> addr \<Rightarrow> ((shape_error + bbox) \<times> heap) option" where
  "GetLocalAABB h a =
     (case h a of
        None \<Rightarrow> Some (Inl InvalidPointer, h)
      | Some (MeshObj m) \<Rightarrow>
          Some (Inr (fst (Mesh_GetLocalAABB m)), h(a \<mapsto> MeshObj (snd (Mesh_GetLocalAABB m))))
      | Some (InstanceObj i) \<Rightarrow>
          (case m_base_shape i of
             None \<Rightarrow> Some (Inl NullBaseShape, h)
           | Some b \<Rightarrow> GetLocalAABB h b))"

subsection \<open>Example objects\<close>

text \<open>The mesh of the spec's scenario, after a first call of \<open>GetLocalAABB\<close>, and a
  store with this mesh and an instance of it.\<close>

definition mesh_example :: Mesh where
  "mesh_example =
     snd (Mesh_GetLocalAABB (Mesh_SetVertices_vec
       [mk_float3 0 0 0, mk_float3 1 2 3, mk_float3 (- 1) 0 5] (Mesh_new False)))"

definition heap_example :: heap where
  "heap_example = [0 \<mapsto> MeshObj mesh_example, 1 \<mapsto> InstanceObj (Instance_new False (Some 0))]"

section \<open>Texture (texture.cpp)\<close>

text \<open>Modelled from the spec: texture.h, which declares the members of \<open>Texture\<close>, is
  not among the sources. The size is a pair of unsigned 32-bit integers and the data an
  owned buffer of bytes. The format tag is one of the three enumerators that
  \<open>ComputeAverageValue\<close> names, or any other value of the enumeration's underlying
  type.\<close>

datatype Format = kRgba8 | kRgba16 | kRgba32 | kUnrecognized nat

record size2 =
  sz_x :: "32 word"
  sz_y :: "32 word"

record Texture =
  m_data :: "8 word list"
  m_size :: size2
  m_format :: Format

datatype tex_error = OutOfBounds | DivisionByZero

definition float3_add :: "(real \<Rightarrow> real) \<Rightarrow> float3 \<Rightarrow> float3 \<Rightarrow> float3" where
  "float3_add rnd a b =
     \<lparr>f3x = fadd rnd (f3x a) (f3x b), f3y = fadd rnd (f3y a) (f3y b), f3z = fadd rnd (f3z a) (f3z b)\<rparr>"

definition float3_scale :: "(real \<Rightarrow> real) \<Rightarrow> float3 \<Rightarrow> real \<Rightarrow> float3" where
  "float3_scale rnd a c =
     \<lparr>f3x = fmul rnd (f3x a) c, f3y = fmul rnd (f3y a) c, f3z = fmul rnd (f3z a) c\<rparr>"

text \<open>\<open>data[k]\<close> after the \<open>reinterpret_cast\<close> of the buffer to elements of one, two
  or four bytes (the low byte first). A read past the end of the buffer is undefined
  behaviour in the source and the error \<open>OutOfBounds\<close> here.\<close>

definition read_u8 :: "8 word list \<Rightarrow> nat \<Rightarrow> tex_error + 8 word" where
  "read_u8 d k = (if k < length d then Inr (d ! k) else Inl OutOfBounds)"

definition read_u16 :: "8 word list \<Rightarrow> nat \<Rightarrow> tex_error + 16 word" where
  "read_u16 d k =
     (if 2 * k + 1 < length d then Inr (word_cat (d ! (2 * k + 1)) (d ! (2 * k)))
      else Inl OutOfBounds)"

definition read_u32 :: "8 word list \<Rightarrow> nat \<Rightarrow> tex_error + 32 word" where
  "read_u32 d k =
     (if 4 * k + 3 < length d
      then Inr (word_cat (word_cat (d ! (4 * k + 3)) (d ! (4 * k + 2)) :: 16 word)
                         (word_cat (d ! (4 * k + 1)) (d ! (4 * k)) :: 16 word))
      else Inl OutOfBounds)"

text \<open>The channel \<open>k\<close> of the buffer as a float, for each format: \<open>data[k] / 255.f\<close>;
  the half with the bits \<open>data[k]\<close>, converted to float; the float \<open>data[k]\<close>.
  Utils/half.h is not among the sources: the value of a half, and the value of the float
  with given bits, are the parameters \<open>half_to_float\<close> and \<open>float_of_bits\<close>.\<close>

definition chan_rgba8 :: "(real \<Rightarrow> real) \<Rightarrow> 8 word list \<Rightarrow> nat \<Rightarrow> tex_error + real" where
  "chan_rgba8 rnd d k =
     (case read_u8 d k of Inl e \<Rightarrow> Inl e | Inr v \<Rightarrow> Inr (fdiv rnd (real (unat v)) 255))"

definition chan_rgba16 :: "(16 word \<Rightarrow> real) \<Rightarrow> 8 word list \<Rightarrow> nat \<Rightarrow> tex_error + real" where
  "chan_rgba16 half_to_float d k =
     (case read_u16 d k of Inl e \<Rightarrow> Inl e | Inr v \<Rightarrow> Inr (half_to_float v))"

definition chan_rgba32 :: "(32 word \<Rightarrow> real) \<Rightarrow> 8 word list \<Rightarrow> nat \<Rightarrow> tex_error + real" where
  "chan_rgba32 float_of_bits d k =
     (case read_u32 d k of Inl e \<Rightarrow> Inl e | Inr v \<Rightarrow> Inr (float_of_bits v))"

text \<open>The loop of each of the three cases, which differ in the channel read only:
  \<open>for (auto i = 0u; i < num_elements; ++i)\<close> reads the channels \<open>4 * i\<close>,
  \<open>4 * i + 1\<close> and \<open>4 * i + 2\<close> and adds them to \<open>avg\<close>. The counter is an
  \<open>unsigned\<close>, so \<open>4 * i\<close> is computed in 32 bits.\<close>

function avg_loop ::
    "(real \<Rightarrow> real) \<Rightarrow> (nat \<Rightarrow> tex_error + real) \<Rightarrow> 32 word \<Rightarrow> 32 word \<Rightarrow> float3 \<Rightarrow>
     tex_error + float3" where
  "avg_loop rnd chan num_elements i avg =
     (if i < num_elements then
        (case chan (unat (4 * i)) of Inl e \<Rightarrow> Inl e | Inr r \<Rightarrow>
         case chan (unat (4 * i + 1)) of Inl e \<Rightarrow> Inl e | Inr g \<Rightarrow>
         case chan (unat (4 * i + 2)) of Inl e \<Rightarrow> Inl e | Inr b \<Rightarrow>
           avg_loop rnd chan num_elements (i + 1) (float3_add rnd avg (mk_float3 r g b)))
      else Inr avg)"
  by pat_completeness auto
termination
proof (relation "measure (\<lambda>(rnd, chan, num_elements, i, avg). unat num_elements - unat i)")
  show "wf (measure (\<lambda>(rnd, chan, num_elements, i, avg). unat num_elements - unat i))"
    by simp
next
  fix rnd :: "real \<Rightarrow> real" and chan :: "nat \<Rightarrow> tex_error + real"
    and num_elements i :: "32 word" and avg :: float3 and r g b :: real
  assume "i < num_elements"
  then have "unat i < unat num_elements"
    by (simp add: word_less_nat_alt)
  moreover have "unat num_elements < 2 ^ 32"
    using unsigned_less [of num_elements, where ?'a = nat] by simp
  ultimately have "unat i + unat (1 :: 32 word) < 2 ^ LENGTH(32)"
    by simp
  then have "unat (i + 1) = unat i + 1"
    by (simp add: unat_add_lem [THEN iffD1])
  with \<open>unat i < unat num_elements\<close> show "((rnd, chan, num_elements, i + 1, float3_add rnd avg (mk_float3 r g b)),
                    (rnd, chan, num_elements, i, avg))
          \<in> measure (\<lambda>(rnd, chan, num_elements, i, avg). unat num_elements - unat i)"
    by simp
qed

declare avg_loop.simps [simp del]

text \<open>\<open>auto num_elements = m_size.x * m_size.y\<close>, a product in 32 bits.\<close>

definition num_elements_of :: "Texture \<Rightarrow> 32 word" where
  "num_elements_of t = sz_x (m_size t) * sz_y (m_size t)"

text \<open>One case of the switch: the loop from \<open>i = 0\<close>, then
  \<open>avg *= (1.f / num_elements)\<close>. The source has no test of \<open>num_elements\<close>: with
  zero elements it divides by zero, which gives no finite float and is the error
  \<open>DivisionByZero\<close> here. A nonzero count converts to a nonzero float.\<close>

definition average_case ::
    "(real \<Rightarrow> real) \<Rightarrow> (nat \<Rightarrow> tex_error + real) \<Rightarrow> 32 word \<Rightarrow> float3 \<Rightarrow> tex_error + float3" where
  "average_case rnd chan num_elements avg =
     (case avg_loop rnd chan num_elements 0 avg of
        Inl e \<Rightarrow> Inl e
      | Inr s \<Rightarrow>
          if num_elements = 0 then Inl DivisionByZero
          else Inr (float3_scale rnd s (fdiv rnd 1 (rnd (real (unat num_elements))))))"

definition ComputeAverageValue ::
    "(real \<Rightarrow> real) \<Rightarrow> (16 word \<Rightarrow> real) \<Rightarrow> (32 word \<Rightarrow> real) \<Rightarrow> Texture \<Rightarrow> tex_error + float3" where
  "ComputeAverageValue rnd half_to_float float_of_bits t =
     (case m_format t of
        kRgba8 \<Rightarrow>
          average_case rnd (chan_rgba8 rnd (m_data t)) (num_elements_of t) (mk_float3 0 0 0)
      | kRgba16 \<Rightarrow>
          average_case rnd (chan_rgba16 half_to_float (m_data t)) (num_elements_of t) (mk_float3 0 0 0)
      | kRgba32 \<Rightarrow>
          average_case rnd (chan_rgba32 float_of_bits (m_data t)) (num_elements_of t) (mk_float3 0 0 0)
      | kUnrecognized tag \<Rightarrow> Inr (mk_float3 0 0 0))"

fun recognized :: "Format \<Rightarrow> bool" where
  "recognized (kUnrecognized tag) = False"
| "recognized f = True"

text \<open>The bytes of one channel in each format, and the bytes of the buffer that hold an
  alpha channel: the fourth channel of every pixel.\<close>

fun bytes_per_channel :: "Format \<Rightarrow> nat" where
  "bytes_per_channel kRgba8 = 1"
| "bytes_per_channel kRgba16 = 2"
| "bytes_per_channel kRgba32 = 4"
| "bytes_per_channel (kUnrecognized tag) = 0"

definition is_alpha_byte :: "Format \<Rightarrow> nat \<Rightarrow> bool" where
  "is_alpha_byte f k \<longleftrightarrow> (k div bytes_per_channel f) mod 4 = 3"

text \<open>Two textures of the same format and size whose buffers agree on every byte of a
  red, green or blue channel.\<close>

definition same_rgb :: "Texture \<Rightarrow> Texture \<Rightarrow> bool" where
  "same_rgb t1 t2 \<longleftrightarrow>
     m_format t1 = m_format t2 \<and> m_size t1 = m_size t2 \<and>
     length (m_data t1) = length (m_data t2) \<and>
     list_all (\<lambda>k. is_alpha_byte (m_format t1) k \<or> m_data t1 ! k = m_data t2 ! k)
       [0..<length (m_data t1)]"

subsection \<open>Example textures\<close>

text \<open>The texture of the spec's scenario; a texture with an unrecognized format and an
  empty buffer; a texture of width zero; two textures of one pixel that differ in the
  alpha byte only; a texture of 65536 by 65536 pixels with its buffer of four bytes for
  each pixel. The examples are of format \<open>kRgba8\<close>, which decodes no half and no float
  from bits: \<open>no_half\<close> and \<open>no_float\<close> stand for the two decoders.\<close>

definition texture_red_2x2 :: Texture where
  "texture_red_2x2 =
     \<lparr>m_data = [255, 0, 0, 255, 255, 0, 0, 255, 255, 0, 0, 255, 255, 0, 0, 255],
      m_size = \<lparr>sz_x = 2, sz_y = 2\<rparr>, m_format = kRgba8\<rparr>"

definition texture_unrecognized :: Texture where
  "texture_unrecognized = \<lparr>m_data = [], m_size = \<lparr>sz_x = 5, sz_y = 5\<rparr>, m_format = kUnrecognized 3\<rparr>"

definition texture_zero_size :: Texture where
  "texture_zero_size = \<lparr>m_data = [], m_size = \<lparr>sz_x = 0, sz_y = 5\<rparr>, m_format = kRgba8\<rparr>"

definition texture_alpha_1 :: Texture where
  "texture_alpha_1 = \<lparr>m_data = [255, 0, 0, 255], m_size = \<lparr>sz_x = 1, sz_y = 1\<rparr>, m_format = kRgba8\<rparr>"

definition texture_alpha_2 :: Texture where
  "texture_alpha_2 = \<lparr>m_data = [255, 0, 0, 7], m_size = \<lparr>sz_x = 1, sz_y = 1\<rparr>, m_format = kRgba8\<rparr>"

definition texture_big :: Texture where
  "texture_big =
     \<lparr>m_data = replicate (4 * (65536 * 65536)) 255,
      m_size = \<lparr>sz_x = 65536, sz_y = 65536\<rparr>, m_format = kRgba8\<rparr>"

definition no_half :: "16 word \<Rightarrow> real" where
  "no_half w = 0"

definition no_float :: "32 word \<Rightarrow> real" where
  "no_float w = 0"

section \<open>Boxes, the cache of a mesh and the dirty flag\<close>

lemma FLT_MAX_pos: "0 < FLT_MAX" by (simp add: FLT_MAX_def)

lemma mk_float3_sel [simp]:
  "f3x (mk_float3 a b c) = a" "f3y (mk_float3 a b c) = b" "f3z (mk_float3 a b c) = c"
  by (simp_all add: mk_float3_def)

lemma float3_eqI: "f3x a = f3x b \<Longrightarrow> f3y a = f3y b \<Longrightarrow> f3z a = f3z b \<Longrightarrow> a = (b::float3)"
  by simp

lemma contains_grow_self: "contains (grow b p) p"
  by (simp add: contains_def grow_def vmin_def vmax_def)

lemma contains_grow_mono: "contains b v \<Longrightarrow> contains (grow b p) v"
  by (simp add: contains_def grow_def vmin_def vmax_def min_le_iff_disj le_max_iff_disj)

lemma contains_grow_vertices_mono: "contains b v \<Longrightarrow> contains (grow_vertices vs b) v"
  by (induction vs arbitrary: b) (simp_all add: contains_grow_mono)

lemma grow_vertices_contains: "v \<in> set vs \<Longrightarrow> contains (grow_vertices vs b) v"
proof (induction vs arbitrary: b)
  case Nil
  then show ?case by simp
next
  case (Cons u us)
  show ?case
  proof (cases "v = u")
    case True
    then show ?thesis by (simp add: contains_grow_vertices_mono contains_grow_self)
  next
    case False
    with Cons.prems have "v \<in> set us" by simp
    then show ?thesis by (simp add: Cons.IH)
  qed
qed

lemma grow_vertices_bounds:
  "vs \<noteq> [] \<Longrightarrow>
     f3x (pmin (grow_vertices vs b)) = min (f3x (pmin b)) (Min (f3x ` set vs)) \<and>
     f3y (pmin (grow_vertices vs b)) = min (f3y (pmin b)) (Min (f3y ` set vs)) \<and>
     f3z (pmin (grow_vertices vs b)) = min (f3z (pmin b)) (Min (f3z ` set vs)) \<and>
     f3x (pmax (grow_vertices vs b)) = max (f3x (pmax b)) (Max (f3x ` set vs)) \<and>
     f3y (pmax (grow_vertices vs b)) = max (f3y (pmax b)) (Max (f3y ` set vs)) \<and>
     f3z (pmax (grow_vertices vs b)) = max (f3z (pmax b)) (Max (f3z ` set vs))"
proof (induction vs arbitrary: b)
  case Nil
  then show ?case by simp
next
  case (Cons u us)
  show ?case
  proof (cases "us = []")
    case True
    then show ?thesis by (simp add: grow_def vmin_def vmax_def)
  next
    case False
    from Cons.IH [OF False, of "grow b u"] False show ?thesis
      by (simp add: grow_def vmin_def vmax_def min.assoc max.assoc)
  qed
qed

lemma grow_vertices_envelope:
  assumes "vs \<noteq> []" and "list_all finite_float3 vs"
  shows "grow_vertices vs bbox_empty = envelope_spec vs"
proof -
  from assms(1) obtain u where u: "u \<in> set vs" by (cases vs) auto
  with assms(2) have fu: "finite_float3 u" by (simp add: list_all_iff)
  have fin: "finite (f ` set vs)" and ne: "f ` set vs \<noteq> {}" for f :: "float3 \<Rightarrow> real"
    using assms(1) by simp_all
  have "Min (f3x ` set vs) \<le> f3x u" "Min (f3y ` set vs) \<le> f3y u" "Min (f3z ` set vs) \<le> f3z u"
       "f3x u \<le> Max (f3x ` set vs)" "f3y u \<le> Max (f3y ` set vs)" "f3z u \<le> Max (f3z ` set vs)"
    using u by simp_all
  with fu have le:
    "Min (f3x ` set vs) \<le> FLT_MAX" "Min (f3y ` set vs) \<le> FLT_MAX" "Min (f3z ` set vs) \<le> FLT_MAX"
    "- FLT_MAX \<le> Max (f3x ` set vs)" "- FLT_MAX \<le> Max (f3y ` set vs)" "- FLT_MAX \<le> Max (f3z ` set vs)"
    unfolding finite_float3_def by linarith+
  have "pmin (grow_vertices vs bbox_empty) = pmin (envelope_spec vs)"
    using grow_vertices_bounds [OF assms(1), of bbox_empty] le
    by (intro float3_eqI) (simp_all add: bbox_empty_def envelope_spec_def mk_float3_def)
  moreover have "pmax (grow_vertices vs bbox_empty) = pmax (envelope_spec vs)"
    using grow_vertices_bounds [OF assms(1), of bbox_empty] le
    by (intro float3_eqI) (simp_all add: bbox_empty_def envelope_spec_def mk_float3_def)
  ultimately show ?thesis by simp
qed

lemma grow_vertices_scenario:
  "grow_vertices [mk_float3 0 0 0, mk_float3 1 2 3, mk_float3 (- 1) 0 5] bbox_empty =
     \<lparr>pmin = mk_float3 (- 1) 0 0, pmax = mk_float3 1 2 5\<rparr>"
  by (simp add: grow_def vmin_def vmax_def bbox_empty_def mk_float3_def FLT_MAX_def)

lemmas mesh_setter_defs =
  Mesh_SetDirty_def SceneObject_SetDirty_def
  Mesh_SetIndices_ptr_def Mesh_SetIndices_vec_def Mesh_SetVertices_ptr_def
  Mesh_SetVertices_floats_def Mesh_SetVertices_vec_def Mesh_SetNormals_ptr_def
  Mesh_SetNormals_floats_def Mesh_SetNormals_vec_def Mesh_SetUVs_ptr_def
  Mesh_SetUVs_floats_def Mesh_SetUVs_vec_def

lemma mesh_reachable_cache_ok: "mesh_reachable m \<Longrightarrow> aabb_cache_ok m"
  by (induction rule: mesh_reachable.induct)
     (auto simp: aabb_cache_ok_def Mesh_new_def Mesh_SetDirty_def SceneObject_SetDirty_def
        Mesh_SetIndices_ptr_def Mesh_SetIndices_vec_def Mesh_SetVertices_ptr_def
        Mesh_SetVertices_floats_def Mesh_SetVertices_vec_def Mesh_SetNormals_ptr_def
        Mesh_SetNormals_floats_def Mesh_SetNormals_vec_def Mesh_SetUVs_ptr_def
        Mesh_SetUVs_floats_def Mesh_SetUVs_vec_def Mesh_GetLocalAABB_def)

lemma Mesh_GetLocalAABB_cache_ok:
  "aabb_cache_ok m \<Longrightarrow> fst (Mesh_GetLocalAABB m) = grow_vertices (m_vertices m) bbox_empty"
  by (simp add: aabb_cache_ok_def Mesh_GetLocalAABB_def)

lemma Mesh_GetLocalAABB_idem:
  "Mesh_GetLocalAABB (snd (Mesh_GetLocalAABB m)) = (fst (Mesh_GetLocalAABB m), snd (Mesh_GetLocalAABB m))"
  by (simp add: Mesh_GetLocalAABB_def)

lemma mesh_example_reachable: "mesh_reachable mesh_example"
  unfolding mesh_example_def by (intro r_GetLocalAABB r_SetVertices_vec r_new)

text \<open>Claim C1. For every mesh that a program can build and that has at least one vertex,
  \<open>GetLocalAABB\<close> returns a box that contains every vertex of the mesh; when the
  coordinates are finite floats the box is the component-wise minimum and maximum of the
  vertices; and the vertices (0,0,0), (1,2,3), (-1,0,5) give min = (-1,0,0), max = (1,2,5).\<close>

theorem Mesh_GetLocalAABB_envelope:
  assumes "mesh_reachable m" and "m_vertices m \<noteq> []"
  shows "(\<forall>v \<in> set (m_vertices m). contains (fst (Mesh_GetLocalAABB m)) v) \<and>
         (list_all finite_float3 (m_vertices m) \<longrightarrow>
            fst (Mesh_GetLocalAABB m) = envelope_spec (m_vertices m)) \<and>
         (m_vertices m = [mk_float3 0 0 0, mk_float3 1 2 3, mk_float3 (- 1) 0 5] \<longrightarrow>
            fst (Mesh_GetLocalAABB m) = \<lparr>pmin = mk_float3 (- 1) 0 0, pmax = mk_float3 1 2 5\<rparr>)"
proof -
  have box: "fst (Mesh_GetLocalAABB m) = grow_vertices (m_vertices m) bbox_empty"
    using assms(1) by (simp add: mesh_reachable_cache_ok Mesh_GetLocalAABB_cache_ok)
  have "\<forall>v \<in> set (m_vertices m). contains (fst (Mesh_GetLocalAABB m)) v"
    by (simp add: box grow_vertices_contains)
  moreover have "list_all finite_float3 (m_vertices m) \<longrightarrow>
      fst (Mesh_GetLocalAABB m) = envelope_spec (m_vertices m)"
    using assms(2) by (simp add: box grow_vertices_envelope)
  moreover have "m_vertices m = [mk_float3 0 0 0, mk_float3 1 2 3, mk_float3 (- 1) 0 5] \<longrightarrow>
      fst (Mesh_GetLocalAABB m) = \<lparr>pmin = mk_float3 (- 1) 0 0, pmax = mk_float3 1 2 5\<rparr>"
    using grow_vertices_scenario by (simp only: box) simp
  ultimately show ?thesis by blast
qed

text \<open>Claim C1 at the mesh of the scenario.\<close>

theorem Mesh_GetLocalAABB_envelope_witness:
  "mesh_reachable (Mesh_SetVertices_vec [mk_float3 0 0 0, mk_float3 1 2 3, mk_float3 (- 1) 0 5]
       (Mesh_new False)) \<and>
   m_vertices (Mesh_SetVertices_vec [mk_float3 0 0 0, mk_float3 1 2 3, mk_float3 (- 1) 0 5]
       (Mesh_new False)) \<noteq> [] \<and>
   contains (fst (Mesh_GetLocalAABB (Mesh_SetVertices_vec
       [mk_float3 0 0 0, mk_float3 1 2 3, mk_float3 (- 1) 0 5] (Mesh_new False)))) (mk_float3 1 2 3) \<and>
   fst (Mesh_GetLocalAABB (Mesh_SetVertices_vec
       [mk_float3 0 0 0, mk_float3 1 2 3, mk_float3 (- 1) 0 5] (Mesh_new False))) =
     \<lparr>pmin = mk_float3 (- 1) 0 0, pmax = mk_float3 1 2 5\<rparr>"
proof -
  let ?m = "Mesh_SetVertices_vec [mk_float3 0 0 0, mk_float3 1 2 3, mk_float3 (- 1) 0 5]
       (Mesh_new False)"
  have r: "mesh_reachable ?m"
    by (simp add: r_new r_SetVertices_vec)
  have v: "m_vertices ?m = [mk_float3 0 0 0, mk_float3 1 2 3, mk_float3 (- 1) 0 5]"
    by (simp add: Mesh_SetVertices_vec_def Mesh_SetDirty_def SceneObject_SetDirty_def)
  have ne: "m_vertices ?m \<noteq> []"
    by (simp add: v)
  have "contains (fst (Mesh_GetLocalAABB ?m)) (mk_float3 1 2 3)"
    using Mesh_GetLocalAABB_envelope [OF r ne] by (auto simp: v)
  moreover have "fst (Mesh_GetLocalAABB ?m) = \<lparr>pmin = mk_float3 (- 1) 0 0, pmax = mk_float3 1 2 5\<rparr>"
    using Mesh_GetLocalAABB_envelope [OF r ne] by (simp add: v)
  ultimately show ?thesis
    using r ne by blast
qed

text \<open>Claim C2. After \<open>SetMaterial\<close>, \<open>SetTransform\<close> and \<open>SetShadow\<close> on a
  shape of either dynamic type, after \<open>SetBaseShape\<close> on an instance and after every
  geometry setter of a mesh, the dirty flag of the object is set.\<close>

theorem setters_mark_dirty:
  "IsDirty (Shape_SetMaterial material s) \<and>
   IsDirty (Shape_SetTransform t s) \<and>
   IsDirty (Shape_SetShadow shadow s) \<and>
   m_dirty (Instance_SetBaseShape base_shape i) \<and>
   m_dirty (Mesh_SetIndices_ptr ixs n m) \<and>
   m_dirty (Mesh_SetIndices_vec ixs m) \<and>
   m_dirty (Mesh_SetVertices_ptr vs n m) \<and>
   m_dirty (Mesh_SetVertices_floats fs n m) \<and>
   m_dirty (Mesh_SetVertices_vec vs m) \<and>
   m_dirty (Mesh_SetNormals_ptr ns n m) \<and>
   m_dirty (Mesh_SetNormals_floats fs n m) \<and>
   m_dirty (Mesh_SetNormals_vec ns m) \<and>
   m_dirty (Mesh_SetUVs_ptr us n m) \<and>
   m_dirty (Mesh_SetUVs_floats fs n m) \<and>
   m_dirty (Mesh_SetUVs_vec us m)"
  by (cases s) (simp_all add: mesh_setter_defs Instance_SetBaseShape_def)

lemma GetLocalAABB_Mesh:
  "h a = Some (MeshObj m) \<Longrightarrow>
   GetLocalAABB h a =
     Some (Inr (fst (Mesh_GetLocalAABB m)), h(a \<mapsto> MeshObj (snd (Mesh_GetLocalAABB m))))"
  by (subst GetLocalAABB.simps) simp

lemma GetLocalAABB_Instance:
  "h a = Some (InstanceObj i) \<Longrightarrow> m_base_shape i = Some b \<Longrightarrow> GetLocalAABB h a = GetLocalAABB h b"
  by (subst GetLocalAABB.simps) simp

text \<open>Claim C5. For an instance with a base shape that is not null, \<open>GetLocalAABB\<close>
  on the instance is \<open>GetLocalAABB\<close> on the base shape: the same result and the same
  store. When the base shape is a mesh the call returns the box of the mesh, the only
  object it writes is the mesh (the instance holds no cache), and \<open>GetLocalAABB\<close> on
  the mesh afterwards returns the same box.\<close>

theorem Instance_GetLocalAABB_delegates:
  assumes "h a = Some (InstanceObj i)" and "m_base_shape i = Some b"
  shows "GetLocalAABB h a = GetLocalAABB h b \<and>
         (\<forall>m. h b = Some (MeshObj m) \<longrightarrow>
            GetLocalAABB h a =
              Some (Inr (fst (Mesh_GetLocalAABB m)), h(b \<mapsto> MeshObj (snd (Mesh_GetLocalAABB m)))) \<and>
            (h(b \<mapsto> MeshObj (snd (Mesh_GetLocalAABB m)))) a = Some (InstanceObj i) \<and>
            GetLocalAABB (h(b \<mapsto> MeshObj (snd (Mesh_GetLocalAABB m)))) b =
              Some (Inr (fst (Mesh_GetLocalAABB m)), h(b \<mapsto> MeshObj (snd (Mesh_GetLocalAABB m)))))"
proof -
  have eq: "GetLocalAABB h a = GetLocalAABB h b"
    using assms by (rule GetLocalAABB_Instance)
  have "GetLocalAABB h a =
          Some (Inr (fst (Mesh_GetLocalAABB m)), h(b \<mapsto> MeshObj (snd (Mesh_GetLocalAABB m)))) \<and>
        (h(b \<mapsto> MeshObj (snd (Mesh_GetLocalAABB m)))) a = Some (InstanceObj i) \<and>
        GetLocalAABB (h(b \<mapsto> MeshObj (snd (Mesh_GetLocalAABB m)))) b =
          Some (Inr (fst (Mesh_GetLocalAABB m)), h(b \<mapsto> MeshObj (snd (Mesh_GetLocalAABB m))))"
    if hb: "h b = Some (MeshObj m)" for m
  proof -
    have ne: "a \<noteq> b"
      using assms(1) hb by auto
    have 1: "GetLocalAABB h a =
        Some (Inr (fst (Mesh_GetLocalAABB m)), h(b \<mapsto> MeshObj (snd (Mesh_GetLocalAABB m))))"
      by (simp add: eq GetLocalAABB_Mesh [of h b m, OF hb])
    have 2: "(h(b \<mapsto> MeshObj (snd (Mesh_GetLocalAABB m)))) a = Some (InstanceObj i)"
      using ne assms(1) by simp
    have 3: "GetLocalAABB (h(b \<mapsto> MeshObj (snd (Mesh_GetLocalAABB m)))) b =
        Some (Inr (fst (Mesh_GetLocalAABB m)), h(b \<mapsto> MeshObj (snd (Mesh_GetLocalAABB m))))"
      by (subst GetLocalAABB_Mesh [where m = "snd (Mesh_GetLocalAABB m)"])
         (simp_all add: Mesh_GetLocalAABB_idem)
    from 1 2 3 show ?thesis by blast
  qed
  with eq show ?thesis by blast
qed

text \<open>Claim C5 at the example store: an instance with the identity transform over the
  example mesh.\<close>

theorem Instance_GetLocalAABB_delegates_witness:
  "heap_example 1 = Some (InstanceObj (Instance_new False (Some 0))) \<and>
   m_base_shape (Instance_new False (Some 0)) = Some 0 \<and>
   heap_example 0 = Some (MeshObj mesh_example) \<and>
   GetLocalAABB heap_example 1 = GetLocalAABB heap_example 0 \<and>
   GetLocalAABB heap_example 1 =
     Some (Inr \<lparr>pmin = mk_float3 (- 1) 0 0, pmax = mk_float3 1 2 5\<rparr>, heap_example)"
proof -
  have a: "heap_example 1 = Some (InstanceObj (Instance_new False (Some 0)))"
    by (simp add: heap_example_def)
  have b: "m_base_shape (Instance_new False (Some 0)) = Some 0"
    by (simp add: Instance_new_def)
  have c: "heap_example 0 = Some (MeshObj mesh_example)"
    by (simp add: heap_example_def)
  have box: "fst (Mesh_GetLocalAABB mesh_example) = \<lparr>pmin = mk_float3 (- 1) 0 0, pmax = mk_float3 1 2 5\<rparr>"
    using grow_vertices_scenario
    by (simp add: mesh_example_def Mesh_GetLocalAABB_def mesh_setter_defs)
  have st: "snd (Mesh_GetLocalAABB mesh_example) = mesh_example"
    by (simp add: mesh_example_def Mesh_GetLocalAABB_def)
  have upd: "heap_example(0 \<mapsto> MeshObj mesh_example) = heap_example"
    using c by (rule map_upd_triv)
  from Instance_GetLocalAABB_delegates [of heap_example 1 "Instance_new False (Some 0)" 0, OF a b] c
  have "GetLocalAABB heap_example 1 = GetLocalAABB heap_example 0"
    and "GetLocalAABB heap_example 1 =
      Some (Inr (fst (Mesh_GetLocalAABB mesh_example)),
            heap_example(0 \<mapsto> MeshObj (snd (Mesh_GetLocalAABB mesh_example))))"
    by blast+
  then show ?thesis
    using a b c by (simp add: box st upd)
qed

lemma take_array_elements:
  "n \<le> length xs \<Longrightarrow> take n xs = array_elements_spec xs n"
  unfolding array_elements_spec_def
  by (rule nth_equalityI) simp_all

lemma length_float3s_of: "length (float3s_of fs) = length fs div 3"
  by (induction fs rule: float3s_of.induct) simp_all

lemma nth_float3s_of:
  "3 * i + 2 < length fs \<Longrightarrow>
   float3s_of fs ! i = mk_float3 (fs ! (3 * i)) (fs ! (3 * i + 1)) (fs ! (3 * i + 2))"
proof (induction fs arbitrary: i rule: float3s_of.induct)
  case (1 a b c r)
  show ?case
  proof (cases i)
    case 0
    then show ?thesis by simp
  next
    case (Suc j)
    with "1.prems" have "3 * j + 2 < length r"
      by simp
    then have "float3s_of r ! j = mk_float3 (r ! (3 * j)) (r ! (3 * j + 1)) (r ! (3 * j + 2))"
      by (rule "1.IH")
    then show ?thesis
      using Suc by simp
  qed
qed simp_all

lemma take_float_vertices:
  assumes "3 * n \<le> length fs"
  shows "take n (float3s_of fs) = float_vertices_spec fs n"
proof (rule nth_equalityI)
  have "n \<le> length fs div 3"
    using assms by presburger
  then show "length (take n (float3s_of fs)) = length (float_vertices_spec fs n)"
    by (simp add: float_vertices_spec_def length_float3s_of)
next
  fix i
  assume "i < length (take n (float3s_of fs))"
  then have i: "i < n"
    by simp
  with assms have "3 * i + 2 < length fs"
    by linarith
  then show "take n (float3s_of fs) ! i = float_vertices_spec fs n ! i"
    using i by (simp add: float_vertices_spec_def nth_float3s_of)
qed

lemma aabb_reflectsI:
  assumes "m_vertices m' = vs" and "\<not> m_aabb_cached m'"
  shows "aabb_reflects m' vs"
proof -
  have "fst (Mesh_GetLocalAABB m') = grow_vertices vs bbox_empty"
    using assms by (simp add: Mesh_GetLocalAABB_def)
  then show ?thesis
    using assms(1) by (simp add: aabb_reflects_def grow_vertices_envelope)
qed

text \<open>Claim C4. After each of the three \<open>SetVertices\<close>, whatever the cache held, the
  mesh holds the new vertices (the first \<open>n\<close> elements behind the pointer, the \<open>n\<close>
  triples of consecutive floats, the given sequence) and \<open>GetLocalAABB\<close> returns the box
  computed from them; on every mesh a program can build it returns the box of the current
  vertices. A second call with no change in between finds the cache valid, returns the
  same box and leaves the mesh as the first call left it; it is served from the cache:
  with a valid cache the function returns the stored box and the mesh unchanged, and the
  result of the second call is the same whatever the vertex array holds.\<close>

theorem GetLocalAABB_after_SetVertices:
  "(n \<le> length vs \<longrightarrow>
      aabb_reflects (Mesh_SetVertices_ptr vs n m) (array_elements_spec vs n)) \<and>
   (3 * n \<le> length fs \<longrightarrow>
      aabb_reflects (Mesh_SetVertices_floats fs n m) (float_vertices_spec fs n)) \<and>
   aabb_reflects (Mesh_SetVertices_vec vs m) vs \<and>
   (mesh_reachable m \<longrightarrow> aabb_reflects m (m_vertices m)) \<and>
   m_aabb_cached (snd (Mesh_GetLocalAABB m)) \<and>
   m_aabb (snd (Mesh_GetLocalAABB m)) = fst (Mesh_GetLocalAABB m) \<and>
   Mesh_GetLocalAABB (snd (Mesh_GetLocalAABB m)) =
     (fst (Mesh_GetLocalAABB m), snd (Mesh_GetLocalAABB m)) \<and>
   fst (Mesh_GetLocalAABB ((snd (Mesh_GetLocalAABB m))\<lparr>m_vertices := other\<rparr>)) =
     fst (Mesh_GetLocalAABB m) \<and>
   (m_aabb_cached m \<longrightarrow> Mesh_GetLocalAABB m = (m_aabb m, m))"
proof -
  have 1: "aabb_reflects (Mesh_SetVertices_ptr vs n m) (array_elements_spec vs n)"
    if "n \<le> length vs"
    by (rule aabb_reflectsI)
       (simp_all add: Mesh_SetVertices_ptr_def Mesh_SetDirty_def SceneObject_SetDirty_def
          take_array_elements [OF that])
  have 2: "aabb_reflects (Mesh_SetVertices_floats fs n m) (float_vertices_spec fs n)"
    if "3 * n \<le> length fs"
    by (rule aabb_reflectsI)
       (simp_all add: Mesh_SetVertices_floats_def Mesh_SetDirty_def SceneObject_SetDirty_def
          take_float_vertices [OF that])
  have 3: "aabb_reflects (Mesh_SetVertices_vec vs m) vs"
    by (rule aabb_reflectsI)
       (simp_all add: Mesh_SetVertices_vec_def Mesh_SetDirty_def SceneObject_SetDirty_def)
  have 4: "aabb_reflects m (m_vertices m)" if "mesh_reachable m"
  proof -
    have "fst (Mesh_GetLocalAABB m) = grow_vertices (m_vertices m) bbox_empty"
      using that by (simp add: mesh_reachable_cache_ok Mesh_GetLocalAABB_cache_ok)
    then show ?thesis
      by (simp add: aabb_reflects_def grow_vertices_envelope)
  qed
  have 5: "m_aabb_cached (snd (Mesh_GetLocalAABB m))"
    and 6: "m_aabb (snd (Mesh_GetLocalAABB m)) = fst (Mesh_GetLocalAABB m)"
    and 8: "fst (Mesh_GetLocalAABB ((snd (Mesh_GetLocalAABB m))\<lparr>m_vertices := other\<rparr>)) =
      fst (Mesh_GetLocalAABB m)"
    and 9: "m_aabb_cached m \<longrightarrow> Mesh_GetLocalAABB m = (m_aabb m, m)"
    by (simp_all add: Mesh_GetLocalAABB_def)
  from 1 2 3 4 5 6 Mesh_GetLocalAABB_idem [of m] 8 9 show ?thesis
    by blast
qed

lemma upt_2: "[0..<2] = [0, Suc 0]"
  by (simp add: numeral_2_eq_2)

text \<open>Claim C4 at the example mesh: the box of the scenario first; after \<open>SetVertices\<close>
  with a pointer and a count, and with an array of floats, the new vertices and their
  box.\<close>

theorem GetLocalAABB_after_SetVertices_witness:
  "(2 :: nat) \<le> length [mk_float3 4 4 4, mk_float3 6 5 4, mk_float3 9 9 9] \<and>
   (3 :: nat) * 2 \<le> length [4, 4, 4, 6, 5, 4 :: real] \<and>
   mesh_reachable mesh_example \<and>
   fst (Mesh_GetLocalAABB mesh_example) = \<lparr>pmin = mk_float3 (- 1) 0 0, pmax = mk_float3 1 2 5\<rparr> \<and>
   m_vertices (Mesh_SetVertices_ptr [mk_float3 4 4 4, mk_float3 6 5 4, mk_float3 9 9 9] 2 mesh_example) =
     [mk_float3 4 4 4, mk_float3 6 5 4] \<and>
   fst (Mesh_GetLocalAABB
         (Mesh_SetVertices_ptr [mk_float3 4 4 4, mk_float3 6 5 4, mk_float3 9 9 9] 2 mesh_example)) =
     \<lparr>pmin = mk_float3 4 4 4, pmax = mk_float3 6 5 4\<rparr> \<and>
   m_vertices (Mesh_SetVertices_floats [4, 4, 4, 6, 5, 4] 2 mesh_example) =
     [mk_float3 4 4 4, mk_float3 6 5 4] \<and>
   fst (Mesh_GetLocalAABB (Mesh_SetVertices_floats [4, 4, 4, 6, 5, 4] 2 mesh_example)) =
     \<lparr>pmin = mk_float3 4 4 4, pmax = mk_float3 6 5 4\<rparr>"
proof -
  let ?vs = "[mk_float3 4 4 4, mk_float3 6 5 4, mk_float3 9 9 9]"
  let ?fs = "[4, 4, 4, 6, 5, 4 :: real]"
  let ?new = "[mk_float3 4 4 4, mk_float3 6 5 4]"
  have h1: "(2 :: nat) \<le> length ?vs" and h2: "(3 :: nat) * 2 \<le> length ?fs"
    by simp_all
  have v: "m_vertices mesh_example = [mk_float3 0 0 0, mk_float3 1 2 3, mk_float3 (- 1) 0 5]"
    by (simp add: mesh_example_def Mesh_GetLocalAABB_def mesh_setter_defs)
  have a: "array_elements_spec ?vs 2 = ?new"
    by (simp add: array_elements_spec_def upt_2)
  have f: "float_vertices_spec ?fs 2 = ?new"
    by (simp add: float_vertices_spec_def upt_2 numeral_3_eq_3)
  have g: "grow_vertices ?new bbox_empty = \<lparr>pmin = mk_float3 4 4 4, pmax = mk_float3 6 5 4\<rparr>"
    by (simp add: grow_def vmin_def vmax_def bbox_empty_def mk_float3_def FLT_MAX_def)
  from GetLocalAABB_after_SetVertices [of 2 ?vs mesh_example ?fs "[]"] h1 h2 mesh_example_reachable
  have "aabb_reflects (Mesh_SetVertices_ptr ?vs 2 mesh_example) (array_elements_spec ?vs 2)"
    and "aabb_reflects (Mesh_SetVertices_floats ?fs 2 mesh_example) (float_vertices_spec ?fs 2)"
    and "aabb_reflects mesh_example (m_vertices mesh_example)"
    by blast+
  then have "m_vertices (Mesh_SetVertices_ptr ?vs 2 mesh_example) = ?new"
    and "fst (Mesh_GetLocalAABB (Mesh_SetVertices_ptr ?vs 2 mesh_example)) = grow_vertices ?new bbox_empty"
    and "m_vertices (Mesh_SetVertices_floats ?fs 2 mesh_example) = ?new"
    and "fst (Mesh_GetLocalAABB (Mesh_SetVertices_floats ?fs 2 mesh_example)) =
      grow_vertices ?new bbox_empty"
    and "fst (Mesh_GetLocalAABB mesh_example) =
      grow_vertices [mk_float3 0 0 0, mk_float3 1 2 3, mk_float3 (- 1) 0 5] bbox_empty"
    unfolding a f v aabb_reflects_def by blast+
  then show ?thesis
    using h1 h2 mesh_example_reachable unfolding g grow_vertices_scenario by blast
qed

section \<open>The average value of a texture\<close>

lemma red_2x2_loop:
  assumes "rnd 0 = 0" and "rnd 1 = 1" and "rnd 2 = 2" and "rnd 3 = 3" and "rnd 4 = 4"
  shows "avg_loop rnd (chan_rgba8 rnd (m_data texture_red_2x2)) 4 0 (mk_float3 0 0 0) =
           Inr (mk_float3 4 0 0)"
  using assms
  by (simp add: avg_loop.simps texture_red_2x2_def chan_rgba8_def read_u8_def float3_add_def
        fadd_def fdiv_def mk_float3_def)

text \<open>Claim C7. For the \<open>kRgba8\<close> texture of size 2x2 whose four pixels are
  (255,0,0,255), \<open>ComputeAverageValue\<close> returns (1, 0, 0). Every value of the
  computation (0, 1, 2, 3, 4 and 1/4) is a float, so the rounding leaves it as it is.\<close>

theorem ComputeAverageValue_red_2x2:
  assumes "rnd 0 = 0" and "rnd 1 = 1" and "rnd 2 = 2" and "rnd 3 = 3" and "rnd 4 = 4"
    and "rnd (1 / 4) = 1 / 4"
  shows "ComputeAverageValue rnd half_to_float float_of_bits texture_red_2x2 = Inr (mk_float3 1 0 0)"
proof -
  have n: "num_elements_of texture_red_2x2 = 4"
    by (simp add: num_elements_of_def texture_red_2x2_def)
  have f: "m_format texture_red_2x2 = kRgba8"
    by (simp add: texture_red_2x2_def)
  have c: "fdiv rnd 1 (rnd 4) = 1 / 4"
    by (simp add: fdiv_def assms(5,6))
  have s: "float3_scale rnd (mk_float3 4 0 0) (1 / 4) = mk_float3 1 0 0"
    by (simp add: float3_scale_def fmul_def mk_float3_def assms(1,2))
  show ?thesis
    by (simp add: ComputeAverageValue_def f n average_case_def red_2x2_loop [OF assms(1-5)] c s)
qed

text \<open>Claim C7 with a rounding that satisfies the hypotheses.\<close>

theorem ComputeAverageValue_red_2x2_witness:
  "id (0 :: real) = 0 \<and> id (1 :: real) = 1 \<and> id (2 :: real) = 2 \<and> id (3 :: real) = 3 \<and>
   id (4 :: real) = 4 \<and> id (1 / 4 :: real) = 1 / 4 \<and>
   ComputeAverageValue id (\<lambda>w. 0) (\<lambda>w. 0) texture_red_2x2 = Inr (mk_float3 1 0 0)"
  using ComputeAverageValue_red_2x2 [of id "\<lambda>w. 0" "\<lambda>w. 0"] by simp

text \<open>Claim C8. For a texture whose format is none of \<open>kRgba8\<close>, \<open>kRgba16\<close>,
  \<open>kRgba32\<close>, \<open>ComputeAverageValue\<close> returns the zero vector, with no error,
  whatever the buffer holds.\<close>

theorem ComputeAverageValue_unrecognized:
  assumes "\<not> recognized (m_format t)"
  shows "ComputeAverageValue rnd half_to_float float_of_bits t = Inr (mk_float3 0 0 0) \<and>
         ComputeAverageValue rnd half_to_float float_of_bits (t\<lparr>m_data := d\<rparr>) = Inr (mk_float3 0 0 0)"
  using assms by (cases "m_format t") (simp_all add: ComputeAverageValue_def)

text \<open>Claim C8 at a texture with an unrecognized format and an empty buffer.\<close>

theorem ComputeAverageValue_unrecognized_witness:
  "\<not> recognized (m_format texture_unrecognized) \<and>
   ComputeAverageValue id (\<lambda>w. 0) (\<lambda>w. 0) texture_unrecognized = Inr (mk_float3 0 0 0)"
  using ComputeAverageValue_unrecognized [of texture_unrecognized id "\<lambda>w. 0" "\<lambda>w. 0"]
  by (simp add: texture_unrecognized_def)

lemma unat_rgb_index:
  fixes i :: "32 word"
  shows "unat (4 * i) mod 4 = 0" and "unat (4 * i + 1) mod 4 = 1" and "unat (4 * i + 2) mod 4 = 2"
proof -
  have d: "(4 :: nat) dvd 2 ^ LENGTH(32)"
    by simp
  have m: "unat (4 * i) = (4 * unat i) mod 2 ^ LENGTH(32)"
    by (simp add: unat_word_ariths)
  show "unat (4 * i) mod 4 = 0"
    unfolding m mod_mod_cancel [OF d] by simp
  have "unat (4 * i + 1) = ((4 * unat i) mod 2 ^ LENGTH(32) + 1) mod 2 ^ LENGTH(32)"
    by (simp add: unat_word_ariths)
  also have "\<dots> = (4 * unat i + 1) mod 2 ^ LENGTH(32)"
    by (rule mod_add_left_eq)
  finally have "unat (4 * i + 1) mod 4 = (4 * unat i + 1) mod 4"
    by (simp only: mod_mod_cancel [OF d])
  then show "unat (4 * i + 1) mod 4 = 1"
    by presburger
  have "unat (4 * i + 2) = ((4 * unat i) mod 2 ^ LENGTH(32) + 2) mod 2 ^ LENGTH(32)"
    by (simp add: unat_word_ariths)
  also have "\<dots> = (4 * unat i + 2) mod 2 ^ LENGTH(32)"
    by (rule mod_add_left_eq)
  finally have "unat (4 * i + 2) mod 4 = (4 * unat i + 2) mod 4"
    by (simp only: mod_mod_cancel [OF d])
  then show "unat (4 * i + 2) mod 4 = 2"
    by presburger
qed

lemma avg_loop_cong_rgb:
  "\<forall>j. j mod 4 \<noteq> 3 \<longrightarrow> chan1 j = chan2 j \<Longrightarrow>
   avg_loop rnd chan1 n i avg = avg_loop rnd chan2 n i avg"
proof (induction rnd chan1 n i avg rule: avg_loop.induct)
  case (1 rnd chan1 n i avg)
  have e: "chan1 (unat (4 * i)) = chan2 (unat (4 * i))"
      "chan1 (unat (4 * i + 1)) = chan2 (unat (4 * i + 1))"
      "chan1 (unat (4 * i + 2)) = chan2 (unat (4 * i + 2))"
    using "1.prems" by (simp_all add: unat_rgb_index)
  show ?case
  proof (cases "i < n")
    case False
    then show ?thesis by (simp add: avg_loop.simps)
  next
    case True
    show ?thesis
      using True "1.IH" "1.prems"
      by (subst avg_loop.simps, subst (2) avg_loop.simps) (simp add: e split: sum.splits)
  qed
qed

lemma same_rgb_bytes:
  assumes "same_rgb t1 t2" and "k < length (m_data t1)" and "\<not> is_alpha_byte (m_format t1) k"
  shows "m_data t1 ! k = m_data t2 ! k"
  using assms by (auto simp: same_rgb_def list_all_iff)

lemma same_rgb_chan8:
  assumes "same_rgb t1 t2" and "m_format t1 = kRgba8" and "j mod 4 \<noteq> 3"
  shows "chan_rgba8 rnd (m_data t1) j = chan_rgba8 rnd (m_data t2) j"
proof -
  have len: "length (m_data t1) = length (m_data t2)"
    using assms(1) by (simp add: same_rgb_def)
  have "m_data t1 ! j = m_data t2 ! j" if "j < length (m_data t1)"
    using same_rgb_bytes [OF assms(1) that] assms(2,3) by (simp add: is_alpha_byte_def)
  then show ?thesis
    by (simp add: chan_rgba8_def read_u8_def len [symmetric])
qed

lemma same_rgb_chan16:
  assumes "same_rgb t1 t2" and "m_format t1 = kRgba16" and "j mod 4 \<noteq> 3"
  shows "chan_rgba16 h (m_data t1) j = chan_rgba16 h (m_data t2) j"
proof -
  have len: "length (m_data t1) = length (m_data t2)"
    using assms(1) by (simp add: same_rgb_def)
  have na: "\<not> is_alpha_byte (m_format t1) (2 * j)" "\<not> is_alpha_byte (m_format t1) (2 * j + 1)"
    using assms(2,3) by (simp_all add: is_alpha_byte_def)
  have "m_data t1 ! (2 * j) = m_data t2 ! (2 * j) \<and> m_data t1 ! (2 * j + 1) = m_data t2 ! (2 * j + 1)"
    if "2 * j + 1 < length (m_data t1)"
    using that same_rgb_bytes [OF assms(1) _ na(1)] same_rgb_bytes [OF assms(1) _ na(2)] by simp
  then show ?thesis
    by (simp add: chan_rgba16_def read_u16_def len [symmetric])
qed

lemma same_rgb_chan32:
  assumes "same_rgb t1 t2" and "m_format t1 = kRgba32" and "j mod 4 \<noteq> 3"
  shows "chan_rgba32 f (m_data t1) j = chan_rgba32 f (m_data t2) j"
proof -
  have len: "length (m_data t1) = length (m_data t2)"
    using assms(1) by (simp add: same_rgb_def)
  have na: "\<not> is_alpha_byte (m_format t1) (4 * j)" "\<not> is_alpha_byte (m_format t1) (4 * j + 1)"
      "\<not> is_alpha_byte (m_format t1) (4 * j + 2)" "\<not> is_alpha_byte (m_format t1) (4 * j + 3)"
  proof -
    have "(4 * j + 1) div 4 = j" "(4 * j + 2) div 4 = j" "(4 * j + 3) div 4 = j"
      by presburger+
    then show "\<not> is_alpha_byte (m_format t1) (4 * j)" "\<not> is_alpha_byte (m_format t1) (4 * j + 1)"
      "\<not> is_alpha_byte (m_format t1) (4 * j + 2)" "\<not> is_alpha_byte (m_format t1) (4 * j + 3)"
      using assms(2,3) by (simp_all add: is_alpha_byte_def)
  qed
  have "m_data t1 ! (4 * j) = m_data t2 ! (4 * j) \<and> m_data t1 ! (4 * j + 1) = m_data t2 ! (4 * j + 1) \<and>
        m_data t1 ! (4 * j + 2) = m_data t2 ! (4 * j + 2) \<and> m_data t1 ! (4 * j + 3) = m_data t2 ! (4 * j + 3)"
    if "4 * j + 3 < length (m_data t1)"
    using that same_rgb_bytes [OF assms(1) _ na(1)] same_rgb_bytes [OF assms(1) _ na(2)]
      same_rgb_bytes [OF assms(1) _ na(3)] same_rgb_bytes [OF assms(1) _ na(4)] by simp
  then show ?thesis
    by (simp add: chan_rgba32_def read_u32_def len [symmetric])
qed

text \<open>Claim C9. Two textures of the same recognized format and the same size whose
  buffers agree on every byte of a red, green or blue channel have the same average,
  whatever their alpha bytes.\<close>

theorem ComputeAverageValue_ignores_alpha:
  assumes "recognized (m_format t1)" and "same_rgb t1 t2"
  shows "ComputeAverageValue rnd half_to_float float_of_bits t1 =
         ComputeAverageValue rnd half_to_float float_of_bits t2"
proof -
  have f: "m_format t2 = m_format t1" and n: "num_elements_of t2 = num_elements_of t1"
    using assms(2) by (simp_all add: same_rgb_def num_elements_of_def)
  show ?thesis
  proof (cases "m_format t1")
    case kRgba8
    have "avg_loop rnd (chan_rgba8 rnd (m_data t1)) (num_elements_of t1) 0 (mk_float3 0 0 0) =
          avg_loop rnd (chan_rgba8 rnd (m_data t2)) (num_elements_of t1) 0 (mk_float3 0 0 0)"
      by (rule avg_loop_cong_rgb) (simp add: same_rgb_chan8 [OF assms(2) kRgba8])
    then show ?thesis
      by (simp add: ComputeAverageValue_def f n kRgba8 average_case_def)
  next
    case kRgba16
    have "avg_loop rnd (chan_rgba16 half_to_float (m_data t1)) (num_elements_of t1) 0 (mk_float3 0 0 0) =
          avg_loop rnd (chan_rgba16 half_to_float (m_data t2)) (num_elements_of t1) 0 (mk_float3 0 0 0)"
      by (rule avg_loop_cong_rgb) (simp add: same_rgb_chan16 [OF assms(2) kRgba16])
    then show ?thesis
      by (simp add: ComputeAverageValue_def f n kRgba16 average_case_def)
  next
    case kRgba32
    have "avg_loop rnd (chan_rgba32 float_of_bits (m_data t1)) (num_elements_of t1) 0 (mk_float3 0 0 0) =
          avg_loop rnd (chan_rgba32 float_of_bits (m_data t2)) (num_elements_of t1) 0 (mk_float3 0 0 0)"
      by (rule avg_loop_cong_rgb) (simp add: same_rgb_chan32 [OF assms(2) kRgba32])
    then show ?thesis
      by (simp add: ComputeAverageValue_def f n kRgba32 average_case_def)
  next
    case (kUnrecognized tag)
    then show ?thesis
      by (simp add: ComputeAverageValue_def f)
  qed
qed

text \<open>Claim C9 at two textures of one pixel that differ in the alpha byte.\<close>

theorem ComputeAverageValue_ignores_alpha_witness:
  "recognized (m_format texture_alpha_1) \<and> same_rgb texture_alpha_1 texture_alpha_2 \<and>
   m_data texture_alpha_1 \<noteq> m_data texture_alpha_2 \<and>
   ComputeAverageValue id (\<lambda>w. 0) (\<lambda>w. 0) texture_alpha_1 =
     ComputeAverageValue id (\<lambda>w. 0) (\<lambda>w. 0) texture_alpha_2"
proof -
  have r: "recognized (m_format texture_alpha_1)"
    by (simp add: texture_alpha_1_def)
  have "[0..<4] = [0, 1, 2, 3]"
    by (simp add: upt_rec)
  then have s: "same_rgb texture_alpha_1 texture_alpha_2"
    by (simp add: same_rgb_def texture_alpha_1_def texture_alpha_2_def is_alpha_byte_def)
  have d: "m_data texture_alpha_1 \<noteq> m_data texture_alpha_2"
    by (simp add: texture_alpha_1_def texture_alpha_2_def)
  from ComputeAverageValue_ignores_alpha [OF r s, of id "\<lambda>w. 0" "\<lambda>w. 0"] r s d show ?thesis
    by simp
qed

lemma avg_loop_zero: "avg_loop rnd chan 0 i avg = Inr avg"
  by (simp add: avg_loop.simps)

lemma avg_loop_no_div:
  "\<forall>k e. chan k = Inl e \<longrightarrow> e = OutOfBounds \<Longrightarrow>
   avg_loop rnd chan n i avg \<noteq> Inl DivisionByZero"
proof (induction rnd chan n i avg rule: avg_loop.induct)
  case (1 rnd chan n i avg)
  show ?case
  proof (cases "i < n")
    case False
    then show ?thesis by (simp add: avg_loop.simps)
  next
    case True
    show ?thesis
      using True "1.IH" "1.prems"
      by (subst avg_loop.simps) (auto split: sum.splits)
  qed
qed

lemma chan_errors:
  "\<forall>k e. chan_rgba8 rnd d k = Inl e \<longrightarrow> e = OutOfBounds"
  "\<forall>k e. chan_rgba16 h d k = Inl e \<longrightarrow> e = OutOfBounds"
  "\<forall>k e. chan_rgba32 f d k = Inl e \<longrightarrow> e = OutOfBounds"
  by (auto simp: chan_rgba8_def chan_rgba16_def chan_rgba32_def read_u8_def read_u16_def
      read_u32_def split: if_splits)

lemma average_case_div:
  assumes "\<forall>k e. chan k = Inl e \<longrightarrow> e = OutOfBounds"
  shows "average_case rnd chan n avg = Inl DivisionByZero \<longleftrightarrow> n = 0"
proof (cases "n = 0")
  case True
  then show ?thesis by (simp add: average_case_def avg_loop_zero)
next
  case False
  have "avg_loop rnd chan n 0 avg \<noteq> Inl DivisionByZero"
    using assms by (rule avg_loop_no_div)
  with False show ?thesis
    by (auto simp: average_case_def split: sum.splits)
qed

lemma unat_num_elements_of:
  "unat (num_elements_of t) = (unat (sz_x (m_size t)) * unat (sz_y (m_size t))) mod 2 ^ 32"
  by (simp add: num_elements_of_def unat_word_ariths)

lemma num_elements_of_zero_iff:
  "num_elements_of t = 0 \<longleftrightarrow> (unat (sz_x (m_size t)) * unat (sz_y (m_size t))) mod 2 ^ 32 = 0"
  using unat_num_elements_of [of t] by (simp add: unat_eq_0 [symmetric] del: unat_eq_0)

text \<open>Claim C10 as stated fails: a \<open>kRgba8\<close> texture of 65536 by 65536 pixels has at
  least one pixel, and a buffer of four bytes for each of them, yet the 32-bit product
  \<open>num_elements\<close> is zero and \<open>ComputeAverageValue\<close> divides by zero.\<close>

theorem ComputeAverageValue_big_divides_by_zero:
  "recognized (m_format texture_big) \<and>
   0 < unat (sz_x (m_size texture_big)) * unat (sz_y (m_size texture_big)) \<and>
   length (m_data texture_big) =
     4 * (unat (sz_x (m_size texture_big)) * unat (sz_y (m_size texture_big))) \<and>
   num_elements_of texture_big = 0 \<and>
   ComputeAverageValue id no_half no_float texture_big = Inl DivisionByZero"
proof -
  have n: "num_elements_of texture_big = 0"
    by (simp add: num_elements_of_def texture_big_def)
  have f: "m_format texture_big = kRgba8"
    by (simp add: texture_big_def)
  have "ComputeAverageValue id no_half no_float texture_big = Inl DivisionByZero"
    by (simp add: ComputeAverageValue_def f n average_case_def avg_loop_zero)
  moreover have "recognized (m_format texture_big)"
    and "0 < unat (sz_x (m_size texture_big)) * unat (sz_y (m_size texture_big))"
    and "length (m_data texture_big) =
      4 * (unat (sz_x (m_size texture_big)) * unat (sz_y (m_size texture_big)))"
    by (simp_all add: texture_big_def)
  ultimately show ?thesis
    using n by blast
qed

text \<open>Claim C10, amended. For a texture of a recognized format, \<open>ComputeAverageValue\<close>
  divides by zero exactly when the product of width and height is a multiple of
  \<open>2 ^ 32\<close>, that is when the 32-bit product \<open>num_elements\<close> is zero; when the product
  of width and height is below \<open>2 ^ 32\<close>, exactly when the texture has no pixel.\<close>

theorem ComputeAverageValue_division_by_zero:
  assumes "recognized (m_format t)"
  shows "(ComputeAverageValue rnd half_to_float float_of_bits t = Inl DivisionByZero \<longleftrightarrow>
            (unat (sz_x (m_size t)) * unat (sz_y (m_size t))) mod 2 ^ 32 = 0) \<and>
         (unat (sz_x (m_size t)) * unat (sz_y (m_size t)) < 2 ^ 32 \<longrightarrow>
            (ComputeAverageValue rnd half_to_float float_of_bits t = Inl DivisionByZero \<longleftrightarrow>
               \<not> 0 < unat (sz_x (m_size t)) * unat (sz_y (m_size t))))"
proof -
  have "ComputeAverageValue rnd half_to_float float_of_bits t = Inl DivisionByZero \<longleftrightarrow>
      num_elements_of t = 0"
    using assms
    by (cases "m_format t") (simp_all add: ComputeAverageValue_def average_case_div chan_errors)
  then have 1: "ComputeAverageValue rnd half_to_float float_of_bits t = Inl DivisionByZero \<longleftrightarrow>
      (unat (sz_x (m_size t)) * unat (sz_y (m_size t))) mod 2 ^ 32 = 0"
    by (simp only: num_elements_of_zero_iff)
  have 2: "ComputeAverageValue rnd half_to_float float_of_bits t = Inl DivisionByZero \<longleftrightarrow>
      \<not> 0 < unat (sz_x (m_size t)) * unat (sz_y (m_size t))"
    if "unat (sz_x (m_size t)) * unat (sz_y (m_size t)) < 2 ^ 32"
    using that 1 by simp
  from 1 2 show ?thesis
    by blast
qed

text \<open>Claim C10, amended, at a texture of width zero, which divides by zero, and at the
  texture of 2 by 2 pixels, which does not.\<close>

theorem ComputeAverageValue_division_by_zero_witness:
  "recognized (m_format texture_zero_size) \<and>
   unat (sz_x (m_size texture_zero_size)) * unat (sz_y (m_size texture_zero_size)) < 2 ^ 32 \<and>
   \<not> 0 < unat (sz_x (m_size texture_zero_size)) * unat (sz_y (m_size texture_zero_size)) \<and>
   ComputeAverageValue id no_half no_float texture_zero_size = Inl DivisionByZero \<and>
   recognized (m_format texture_red_2x2) \<and>
   unat (sz_x (m_size texture_red_2x2)) * unat (sz_y (m_size texture_red_2x2)) < 2 ^ 32 \<and>
   0 < unat (sz_x (m_size texture_red_2x2)) * unat (sz_y (m_size texture_red_2x2)) \<and>
   ComputeAverageValue id no_half no_float texture_red_2x2 \<noteq> Inl DivisionByZero"
proof -
  have r: "recognized (m_format texture_zero_size)" and r': "recognized (m_format texture_red_2x2)"
    by (simp_all add: texture_zero_size_def texture_red_2x2_def)
  have z: "unat (sz_x (m_size texture_zero_size)) * unat (sz_y (m_size texture_zero_size)) = 0"
    by (simp add: texture_zero_size_def)
  have p: "unat (sz_x (m_size texture_red_2x2)) * unat (sz_y (m_size texture_red_2x2)) = 4"
    by (simp add: texture_red_2x2_def)
  have "ComputeAverageValue id no_half no_float texture_zero_size = Inl DivisionByZero"
    using ComputeAverageValue_division_by_zero [OF r, of id no_half no_float] by (simp add: z)
  moreover have "ComputeAverageValue id no_half no_float texture_red_2x2 \<noteq> Inl DivisionByZero"
    using ComputeAverageValue_division_by_zero [OF r', of id no_half no_float] by (simp add: p)
  ultimately show ?thesis
    using r r' by (simp add: z p)
qed

end
